theory Spec2Isabelle
  imports
    Main
    "HOL-Library.AList"
    "HOL-Library.Char_ord"
    "HOL-Library.List_Lexorder"
    "HOL-Library.Multiset"
begin

section \<open>md2docx: a shallow embedding of convert.py\<close>

text \<open>
  The program is orchestration around three collaborators: \<^verbatim>\<open>pathlib\<close> (pure path
  arithmetic), the file system, and the \<^verbatim>\<open>pypandoc\<close> engine. The embedding fixes the
  POSIX flavour of \<^verbatim>\<open>pathlib\<close> as of CPython 3.11 (separator \<^verbatim>\<open>/\<close>, case-sensitive
  globbing, one root \<^verbatim>\<open>/\<close>), a file system without symbolic links and without
  permission errors, and takes the engine as a parameter.
\<close>

subsection \<open>Exceptions\<close>

datatype exn_kind =
    FileNotFoundError | NotADirectoryError | FileExistsError | OSError
  | RuntimeError | ImportError | ValueError | AttributeError | TypeError

text \<open>An exception object: its class, its message and its \<^verbatim>\<open>__cause__\<close>.\<close>

datatype exn = Exn (kind: exn_kind) (msg: string) (cause: "exn option")

subsection \<open>Pure paths\<close>

text \<open>
  A parsed \<^verbatim>\<open>PurePosixPath\<close>: whether it has the root \<^verbatim>\<open>/\<close>, and its components
  after the root.
\<close>

datatype path = Path (is_absolute: bool) (parts: "string list")

definition sep :: char where
  "sep = CHR ''/''"

fun join_with :: "string \<Rightarrow> string list \<Rightarrow> string" where
  "join_with s [] = []"
| "join_with s [x] = x"
| "join_with s (x # y # ys) = x @ s @ join_with s (y # ys)"

text \<open>\<^verbatim>\<open>str(p)\<close>.\<close>

definition str_path :: "path \<Rightarrow> string" where
  "str_path p =
     (if is_absolute p then [sep] @ join_with [sep] (parts p)
      else if parts p = [] then ''.''
      else join_with [sep] (parts p))"

text \<open>
  \<^verbatim>\<open>repr(s)\<close> on printable text: double quotes when the string holds an apostrophe
  and no double quote, otherwise single quotes with apostrophes and backslashes escaped.
\<close>

definition repr_str :: "string \<Rightarrow> string" where
  "repr_str s =
     (if CHR 0x27 \<in> set s \<and> CHR 0x22 \<notin> set s then [CHR 0x22] @ s @ [CHR 0x22]
      else [CHR 0x27]
           @ concat (map (\<lambda>c. if c = CHR 0x27 \<or> c = CHR 0x5C then [CHR 0x5C, c] else [c]) s)
           @ [CHR 0x27])"

definition repr_path :: "path \<Rightarrow> string" where
  "repr_path p = ''PosixPath('' @ repr_str (str_path p) @ '')''"

text \<open>\<^verbatim>\<open>s.split(c)\<close>: the pieces of \<open>s\<close> between the occurrences of \<open>c\<close>.\<close>

fun split_on :: "char \<Rightarrow> string \<Rightarrow> string list" where
  "split_on c [] = [[]]"
| "split_on c (x # xs) =
     (if x = c then [] # split_on c xs
      else (case split_on c xs of
              [] \<Rightarrow> [[x]]
            | y # ys \<Rightarrow> (x # y) # ys))"

text \<open>
  \<^verbatim>\<open>parse_parts\<close> on one string: empty components and \<^verbatim>\<open>.\<close> are dropped,
  a leading separator makes the path absolute.
\<close>

definition parse_path :: "string \<Rightarrow> path" where
  "parse_path s =
     Path (s \<noteq> [] \<and> hd s = sep)
          (filter (\<lambda>x. x \<noteq> [] \<and> x \<noteq> ''.'') (split_on sep s))"

text \<open>\<^verbatim>\<open>p / s\<close> for a path \<open>p\<close> and a string \<open>s\<close>.\<close>

definition joinpath :: "path \<Rightarrow> string \<Rightarrow> path" where
  "joinpath p s =
     (let q = parse_path s in
      if is_absolute q then q
      else Path (is_absolute p) (parts p @ parts q))"

text \<open>\<^verbatim>\<open>p.name\<close>, \<^verbatim>\<open>p.parent\<close>.\<close>

definition name :: "path \<Rightarrow> string" where
  "name p = (if parts p = [] then [] else last (parts p))"

definition parent :: "path \<Rightarrow> path" where
  "parent p = Path (is_absolute p) (butlast (parts p))"

text \<open>\<^verbatim>\<open>s.rfind(c)\<close>: the index of the last \<open>c\<close> in \<open>s\<close>, or \<open>-1\<close>.\<close>

definition rfind :: "char \<Rightarrow> string \<Rightarrow> int" where
  "rfind c s = int (length (dropWhile (\<lambda>x. x \<noteq> c) (rev s))) - 1"

definition suffix_of :: "string \<Rightarrow> string" where
  "suffix_of n =
     (let i = rfind CHR ''.'' n in
      if 0 < i \<and> i < int (length n) - 1 then drop (nat i) n else [])"

definition stem_of :: "string \<Rightarrow> string" where
  "stem_of n =
     (let i = rfind CHR ''.'' n in
      if 0 < i \<and> i < int (length n) - 1 then take (nat i) n else n)"

text \<open>\<^verbatim>\<open>p.suffix\<close>, \<^verbatim>\<open>p.stem\<close>.\<close>

definition suffix :: "path \<Rightarrow> string" where
  "suffix p = suffix_of (name p)"

definition stem :: "path \<Rightarrow> string" where
  "stem p = stem_of (name p)"

text \<open>\<^verbatim>\<open>p.with_suffix(suf)\<close>; every \<^verbatim>\<open>raise ValueError\<close> of the library is a branch.\<close>

definition with_suffix :: "path \<Rightarrow> string \<Rightarrow> exn + path" where
  "with_suffix p suf =
     (if sep \<in> set suf then
        Inl (Exn ValueError (''Invalid suffix '' @ repr_str suf) None)
      else if (suf \<noteq> [] \<and> hd suf \<noteq> CHR ''.'') \<or> suf = ''.'' then
        Inl (Exn ValueError (''Invalid suffix '' @ repr_str suf) None)
      else if name p = [] then
        Inl (Exn ValueError (repr_path p @ '' has an empty name'') None)
      else
        (let old_suffix = suffix p;
             n = (if old_suffix = [] then name p @ suf
                  else take (length (name p) - length old_suffix) (name p) @ suf)
         in Inr (Path (is_absolute p) (butlast (parts p) @ [n]))))"

text \<open>
  \<^verbatim>\<open>p.relative_to(other)\<close>: \<open>other\<close> must be a prefix of \<open>p\<close>, root included;
  the result is the relative rest.
\<close>

definition relative_to :: "path \<Rightarrow> path \<Rightarrow> exn + path" where
  "relative_to p other =
     (if is_absolute p = is_absolute other
         \<and> take (length (parts other)) (parts p) = parts other
      then Inr (Path False (drop (length (parts other)) (parts p)))
      else Inl (Exn ValueError
             (repr_str (str_path p) @ '' is not in the subpath of '' @ repr_str (str_path other)
                @ '' OR one path is relative and the other is absolute.'') None))"

text \<open>
  The key \<^verbatim>\<open>_cparts\<close> by which paths are compared: the root, then the components.
  Lists of strings are compared lexicographically, strings character by character.
\<close>

definition cparts :: "path \<Rightarrow> string list" where
  "cparts p = (if is_absolute p then [[sep]] else []) @ parts p"

text \<open>\<^verbatim>\<open>s.lower()\<close> on the ASCII letters, which decide a comparison with \<^verbatim>\<open>.md\<close>.\<close>

definition lower_char :: "char \<Rightarrow> char" where
  "lower_char c =
     (if (65::nat) \<le> of_char c \<and> of_char c \<le> (90::nat)
      then char_of (of_char c + (32::nat)) else c)"

definition lower :: "string \<Rightarrow> string" where
  "lower s = map lower_char s"

text \<open>\<^verbatim>\<open>s.replace(old, new)\<close> for single characters.\<close>

definition replace_char :: "char \<Rightarrow> char \<Rightarrow> string \<Rightarrow> string" where
  "replace_char old new s = map (\<lambda>c. if c = old then new else c) s"

text \<open>
  The compiled pattern \<^verbatim>\<open>*.md\<close> of the POSIX flavour
  (\<^verbatim>\<open>re.compile(fnmatch.translate(pat)).fullmatch\<close>, no \<^verbatim>\<open>IGNORECASE\<close>):
  the name ends with \<^verbatim>\<open>.md\<close>.
\<close>

definition fnmatch_md :: "string \<Rightarrow> bool" where
  "fnmatch_md n = (3 \<le> length n \<and> drop (length n - 3) n = ''.md'')"

subsection \<open>The file system\<close>

text \<open>
  A tree: a regular file with its content, or a directory with its entries in the
  order the operating system lists them.
\<close>

datatype node = File string | Dir "(string \<times> node) list"

fun lookup :: "node \<Rightarrow> string list \<Rightarrow> node option" where
  "lookup n [] = Some n"
| "lookup (File c) (x # xs) = None"
| "lookup (Dir es) (x # xs) =
     (case map_of es x of None \<Rightarrow> None | Some c \<Rightarrow> lookup c xs)"

definition node_is_file :: "node \<Rightarrow> string list \<Rightarrow> bool" where
  "node_is_file t p = (case lookup t p of Some (File c) \<Rightarrow> True | _ \<Rightarrow> False)"

definition node_is_dir :: "node \<Rightarrow> string list \<Rightarrow> bool" where
  "node_is_dir t p = (case lookup t p of Some (Dir es) \<Rightarrow> True | _ \<Rightarrow> False)"

definition node_exists :: "node \<Rightarrow> string list \<Rightarrow> bool" where
  "node_exists t p = (lookup t p \<noteq> None)"

text \<open>\<^verbatim>\<open>os.listdir\<close> of an existing directory.\<close>

definition listdir :: "node \<Rightarrow> string list \<Rightarrow> string list" where
  "listdir t p = (case lookup t p of Some (Dir es) \<Rightarrow> map fst es | _ \<Rightarrow> [])"

fun new_dirs :: "string list \<Rightarrow> node" where
  "new_dirs [] = Dir []"
| "new_dirs (n # ns) = Dir [(n, new_dirs ns)]"

text \<open>
  \<^verbatim>\<open>Path.mkdir(parents=True, exist_ok=True)\<close>: missing directories are created
  along the path; an existing directory is accepted; a regular file at the path
  is \<^verbatim>\<open>FileExistsError\<close>, a regular file above it \<^verbatim>\<open>NotADirectoryError\<close>.
\<close>

fun mkdirs :: "node \<Rightarrow> string list \<Rightarrow> exn_kind + node" where
  "mkdirs (File c) [] = Inl FileExistsError"
| "mkdirs (Dir es) [] = Inr (Dir es)"
| "mkdirs (File c) (n # ns) = Inl NotADirectoryError"
| "mkdirs (Dir es) (n # ns) =
     (case map_of es n of
        None \<Rightarrow> Inr (Dir (es @ [(n, new_dirs ns)]))
      | Some c \<Rightarrow>
          (case mkdirs c ns of
             Inl k \<Rightarrow> Inl k
           | Inr c' \<Rightarrow> Inr (Dir (AList.update n c' es))))"

definition mkdir_parents :: "node \<Rightarrow> path \<Rightarrow> exn + node" where
  "mkdir_parents t p =
     (case mkdirs t (parts p) of
        Inl k \<Rightarrow>
          Inl (Exn k ((if k = FileExistsError then ''[Errno 17] File exists: ''
                       else ''[Errno 20] Not a directory: '') @ repr_str (str_path p)) None)
      | Inr t' \<Rightarrow> Inr t')"

text \<open>
  \<^verbatim>\<open>_RecursiveWildcardSelector._iterate_directories\<close>: the starting directory,
  then every directory below it, depth first.
\<close>

fun iterate_directories :: "string list \<Rightarrow> node \<Rightarrow> string list list" where
  "iterate_directories p (File c) = []"
| "iterate_directories p (Dir es) =
     p # concat (map (\<lambda>e. iterate_directories (p @ [fst e]) (snd e)) es)"

text \<open>\<^verbatim>\<open>_WildcardSelector._select_from\<close> for \<^verbatim>\<open>*.md\<close>: entries of any kind whose name matches.\<close>

definition wildcard_select :: "node \<Rightarrow> string list \<Rightarrow> string list list" where
  "wildcard_select t d = map (\<lambda>n. d @ [n]) (filter fnmatch_md (listdir t d))"

text \<open>The \<^verbatim>\<open>yielded\<close> set of the recursive selector: a path is yielded once.\<close>

fun yield_once :: "'a list \<Rightarrow> 'a list \<Rightarrow> 'a list" where
  "yield_once yielded [] = []"
| "yield_once yielded (x # xs) =
     (if x \<in> set yielded then yield_once yielded xs
      else x # yield_once (x # yielded) xs)"

text \<open>\<^verbatim>\<open>folder.rglob("*.md")\<close> for an absolute folder.\<close>

definition rglob_md :: "node \<Rightarrow> string list \<Rightarrow> path list" where
  "rglob_md t folder =
     (case lookup t folder of
        Some (Dir es) \<Rightarrow>
          map (Path True)
            (yield_once []
               (concat (map (wildcard_select t) (iterate_directories folder (Dir es)))))
      | _ \<Rightarrow> [])"

text \<open>\<^verbatim>\<open>folder.iterdir()\<close> for an absolute folder.\<close>

definition iterdir :: "node \<Rightarrow> string list \<Rightarrow> path list" where
  "iterdir t folder = map (\<lambda>n. Path True (folder @ [n])) (listdir t folder)"

subsection \<open>The world the program runs in\<close>

text \<open>
  One call of \<^verbatim>\<open>pypandoc.convert_file\<close>. The two file arguments are kept as paths
  (the source passes their \<^verbatim>\<open>str\<close>).
\<close>

record pandoc_call =
  source_file :: path
  to :: string
  outputfile :: path
  format :: string
  extra_args :: "string list"

text \<open>What the program does outside itself besides touching the file system.\<close>

datatype event = ImportPypandoc | ConvertFile pandoc_call

record world =
  fs :: node
  cwd :: "string list"
  log :: "event list"
  stdout :: "string list"
  stderr :: "string list"

text \<open>
  The engine is not part of the repository: \<^verbatim>\<open>convert_file\<close> is any function that,
  given the call and the file system, returns normally or raises, and leaves a file
  system behind. \<open>None\<close> for the engine is \<^verbatim>\<open>import pypandoc\<close> raising
  \<^verbatim>\<open>ImportError\<close>.
\<close>

type_synonym engine = "pandoc_call \<Rightarrow> node \<Rightarrow> (exn + unit) \<times> node"

text \<open>\<^verbatim>\<open>os.path.realpath\<close> without symbolic links: \<^verbatim>\<open>..\<close> pops a component.\<close>

fun normalize :: "string list \<Rightarrow> string list \<Rightarrow> string list" where
  "normalize stack [] = stack"
| "normalize stack (c # cs) =
     (if c = ''..'' then normalize (butlast stack) cs
      else normalize (stack @ [c]) cs)"

text \<open>\<^verbatim>\<open>Path(p).resolve()\<close>.\<close>

definition resolve :: "world \<Rightarrow> path \<Rightarrow> path" where
  "resolve w p =
     Path True (normalize (if is_absolute p then [] else cwd w) (parts p))"

text \<open>
  \<^verbatim>\<open>p.is_file()\<close>, \<^verbatim>\<open>p.is_dir()\<close>; the program asks only about resolved paths
  and their children.
\<close>

definition is_file :: "world \<Rightarrow> path \<Rightarrow> bool" where
  "is_file w p = node_is_file (fs w) (parts p)"

definition is_dir :: "world \<Rightarrow> path \<Rightarrow> bool" where
  "is_dir w p = node_is_dir (fs w) (parts p)"

definition path_exists :: "world \<Rightarrow> path \<Rightarrow> bool" where
  "path_exists w p = node_exists (fs w) (parts p)"

subsection \<open>\<^verbatim>\<open>collect_md_files\<close>\<close>

text \<open>Lines 96 to 99: the candidates in the order the operating system yields them.\<close>

definition candidate_paths :: "world \<Rightarrow> path \<Rightarrow> bool \<Rightarrow> path list" where
  "candidate_paths w folder recursive =
     (if recursive then rglob_md (fs w) (parts folder)
      else filter (\<lambda>p. is_file w p \<and> lower (suffix p) = ''.md'')
             (iterdir (fs w) (parts folder)))"

definition collect_md_files :: "world \<Rightarrow> path \<Rightarrow> bool \<Rightarrow> exn + path list" where
  "collect_md_files w folder0 recursive =
     (let folder = resolve w folder0 in
      if \<not> is_dir w folder then
        Inl (Exn NotADirectoryError (''Not a directory: '' @ str_path folder) None)
      else Inr (sort_key cparts (candidate_paths w folder recursive)))"

subsection \<open>\<^verbatim>\<open>convert_md_to_docx\<close>\<close>

text \<open>
  The result is the value returned or the exception raised, together with the world
  as it is at that moment.
\<close>

definition convert_md_to_docx ::
  "engine option \<Rightarrow> world \<Rightarrow> path \<Rightarrow> path \<Rightarrow> path option \<Rightarrow> (exn + unit) \<times> world" where
  "convert_md_to_docx pypandoc w md_path0 docx_path0 reference_doc0 =
     (let md_path = resolve w md_path0;
          docx_path = resolve w docx_path0
      in
      if \<not> is_file w md_path then
        (Inl (Exn FileNotFoundError (''Markdown file not found: '' @ str_path md_path) None), w)
      else
        (let reference_doc = map_option (resolve w) reference_doc0 in
         if reference_doc \<noteq> None \<and> \<not> is_file w (the reference_doc) then
           (Inl (Exn FileNotFoundError
                  (''Reference document not found: '' @ str_path (the reference_doc)) None), w)
         else
           (case mkdir_parents (fs w) (parent docx_path) of
              Inl e \<Rightarrow> (Inl e, w)
            | Inr t1 \<Rightarrow>
                (let w1 = w\<lparr>fs := t1, log := log w @ [ImportPypandoc]\<rparr> in
                 case pypandoc of
                   None \<Rightarrow>
                     (Inl (Exn RuntimeError
                            ''pypandoc is required. Install with: pip install pypandoc_binary''
                            None), w1)
                 | Some convert_file \<Rightarrow>
                     (let args =
                            [''--resource-path='' @ str_path (parent md_path)]
                            @ (case reference_doc of
                                 None \<Rightarrow> []
                               | Some r \<Rightarrow> [''--reference-doc'', str_path r]);
                          call = \<lparr>source_file = md_path, to = ''docx'',
                                   outputfile = docx_path,
                                   format = ''markdown+hard_line_breaks'',
                                   extra_args = args\<rparr>
                      in case convert_file call t1 of
                           (r, t2) \<Rightarrow>
                             (r, w1\<lparr>fs := t2, log := log w1 @ [ConvertFile call]\<rparr>))))))"

subsection \<open>\<^verbatim>\<open>run_single_file\<close>\<close>

text \<open>Lines 115 to 118: the destination of the single-file mode.\<close>

definition single_out_path :: "world \<Rightarrow> path \<Rightarrow> path option \<Rightarrow> exn + path" where
  "single_out_path w md_path output =
     (case output of
        Some out \<Rightarrow> Inr (resolve w out)
      | None \<Rightarrow> with_suffix md_path ''.docx'')"

definition run_single_file ::
  "engine option \<Rightarrow> world \<Rightarrow> path \<Rightarrow> path option \<Rightarrow> path option \<Rightarrow> (exn + path) \<times> world" where
  "run_single_file pypandoc w md_path output reference_doc =
     (case single_out_path w md_path output of
        Inl e \<Rightarrow> (Inl e, w)
      | Inr out_path \<Rightarrow>
          (case convert_md_to_docx pypandoc w md_path out_path reference_doc of
             (Inl e, w1) \<Rightarrow> (Inl e, w1)
           | (Inr u, w1) \<Rightarrow> (Inr out_path, w1)))"

subsection \<open>\<^verbatim>\<open>run_folder\<close>\<close>

text \<open>
  Lines 146 to 156: the destination of one discovered file. In the handler of
  \<^verbatim>\<open>ValueError\<close> the source binds \<^verbatim>\<open>rel\<close> to \<^verbatim>\<open>md_path.name\<close>, a \<^verbatim>\<open>str\<close>, so the
  following \<^verbatim>\<open>rel.with_suffix("")\<close> raises \<^verbatim>\<open>AttributeError\<close>.
\<close>

definition batch_docx_path :: "world \<Rightarrow> path \<Rightarrow> path option \<Rightarrow> path \<Rightarrow> exn + path" where
  "batch_docx_path w folder output_dir md_path =
     (case output_dir of
        Some od \<Rightarrow>
          (case relative_to md_path folder of
             Inl e \<Rightarrow>
               Inl (Exn AttributeError
                     (repr_str ''str'' @ '' object has no attribute '' @ repr_str ''with_suffix'')
                     None)
           | Inr rel \<Rightarrow>
               (case with_suffix rel [] of
                  Inl e \<Rightarrow> Inl e
                | Inr r \<Rightarrow>
                    (let stem = replace_char sep CHR ''_'' (str_path r)
                     in Inr (joinpath (resolve w od) (stem @ ''.docx'')))))
      | None \<Rightarrow> with_suffix md_path ''.docx'')"

text \<open>The loop of lines 145 to 159, with \<^verbatim>\<open>out_paths\<close> as accumulator.\<close>

fun convert_each ::
  "engine option \<Rightarrow> path \<Rightarrow> path option \<Rightarrow> path option \<Rightarrow> world \<Rightarrow> path list \<Rightarrow> path list
     \<Rightarrow> (exn + path list) \<times> world" where
  "convert_each pypandoc folder output_dir reference_doc w out_paths [] = (Inr out_paths, w)"
| "convert_each pypandoc folder output_dir reference_doc w out_paths (md_path # rest) =
     (case batch_docx_path w folder output_dir md_path of
        Inl e \<Rightarrow> (Inl e, w)
      | Inr docx_path \<Rightarrow>
          (case convert_md_to_docx pypandoc w md_path docx_path reference_doc of
             (Inl e, w1) \<Rightarrow> (Inl e, w1)
           | (Inr u, w1) \<Rightarrow>
               convert_each pypandoc folder output_dir reference_doc w1
                 (out_paths @ [docx_path]) rest))"

definition run_folder ::
  "engine option \<Rightarrow> world \<Rightarrow> path \<Rightarrow> path option \<Rightarrow> bool \<Rightarrow> path option
     \<Rightarrow> (exn + path list) \<times> world" where
  "run_folder pypandoc w folder0 output_dir recursive reference_doc =
     (case collect_md_files w folder0 recursive of
        Inl e \<Rightarrow> (Inl e, w)
      | Inr md_files \<Rightarrow>
          if md_files = [] then (Inr [], w)
          else convert_each pypandoc (resolve w folder0) output_dir reference_doc w [] md_files)"

subsection \<open>\<^verbatim>\<open>main\<close>\<close>

text \<open>
  The parsed arguments. The mutually exclusive, required group of the parser leaves
  exactly one of \<^verbatim>\<open>--file\<close> and \<^verbatim>\<open>--folder\<close> set.
\<close>

record args =
  arg_file :: "path option"
  arg_folder :: "path option"
  arg_output :: "path option"
  arg_output_dir :: "path option"
  arg_recursive :: bool
  arg_reference_doc :: "path option"

text \<open>The body of the \<^verbatim>\<open>try\<close>: an exception, or the exit status the body leads to.\<close>

definition main_body :: "engine option \<Rightarrow> world \<Rightarrow> args \<Rightarrow> (exn + int) \<times> world" where
  "main_body pypandoc w a =
     (case arg_file a of
        Some f \<Rightarrow>
          (case run_single_file pypandoc w f (arg_output a) (arg_reference_doc a) of
             (Inl e, w1) \<Rightarrow> (Inl e, w1)
           | (Inr out, w1) \<Rightarrow>
               (Inr 0, w1\<lparr>stdout := stdout w1 @ [''Created: '' @ str_path out]\<rparr>))
      | None \<Rightarrow>
          (case arg_folder a of
             None \<Rightarrow>
               (Inl (Exn TypeError
                      ''expected str, bytes or os.PathLike object, not NoneType'' None), w)
           | Some d \<Rightarrow>
               (case run_folder pypandoc w d (arg_output_dir a) (arg_recursive a)
                       (arg_reference_doc a) of
                  (Inl e, w1) \<Rightarrow> (Inl e, w1)
                | (Inr out_list, w1) \<Rightarrow>
                    if out_list = [] then
                      (Inr 1, w1\<lparr>stderr := stderr w1 @ [''No .md files found.'']\<rparr>)
                    else
                      (Inr 0, w1\<lparr>stdout := stdout w1
                                 @ map (\<lambda>p. ''Created: '' @ str_path p) out_list\<rparr>))))"

definition handled :: "exn_kind \<Rightarrow> bool" where
  "handled k = (k = FileNotFoundError \<or> k = NotADirectoryError \<or> k = RuntimeError)"

definition main :: "engine option \<Rightarrow> world \<Rightarrow> args \<Rightarrow> (exn + int) \<times> world" where
  "main pypandoc w a =
     (case main_body pypandoc w a of
        (Inl e, w1) \<Rightarrow>
          if handled (kind e) then
            (Inr 1, w1\<lparr>stderr := stderr w1 @ [''Error: '' @ msg e]\<rparr>)
          else (Inl e, w1)
      | (Inr status, w1) \<Rightarrow> (Inr status, w1))"

subsection \<open>The specification's wording\<close>

text \<open>
  The flattened stem of the specification, on the components of the input's path
  relative to the root: the extension of the last component is stripped, the
  components are joined, and every separator becomes an underscore.
\<close>

definition flattened_stem :: "string list \<Rightarrow> string" where
  "flattened_stem rel =
     replace_char sep CHR ''_'' (join_with [sep] (butlast rel @ [stem_of (last rel)]))"

text \<open>Every path below a directory, at any depth.\<close>

fun descendants :: "string list \<Rightarrow> node \<Rightarrow> string list list" where
  "descendants p (File c) = []"
| "descendants p (Dir es) =
     concat (map (\<lambda>e. (p @ [fst e]) # descendants (p @ [fst e]) (snd e)) es)"

text \<open>
  Discovery as the specification words it: the regular files whose extension is
  \<^verbatim>\<open>.md\<close> in any letter case, at any depth when \<open>recursive\<close>, otherwise among the
  direct children; sorted.
\<close>

definition spec_discover :: "world \<Rightarrow> path \<Rightarrow> bool \<Rightarrow> exn + path list" where
  "spec_discover w folder0 recursive =
     (let folder = resolve w folder0 in
      if \<not> is_dir w folder then
        Inl (Exn NotADirectoryError (''Not a directory: '' @ str_path folder) None)
      else
        Inr (sort_key cparts
              (filter (\<lambda>p. is_file w p \<and> lower (suffix p) = ''.md'')
                 (if recursive then
                    (case lookup (fs w) (parts folder) of
                       Some t \<Rightarrow> map (Path True) (descendants (parts folder) t)
                     | None \<Rightarrow> [])
                  else iterdir (fs w) (parts folder)))))"

text \<open>
  What the specification asks of the engine (section 6): it produces the output file
  or raises, and no existing file is deleted or moved.
\<close>

definition engine_keeps_files :: "engine \<Rightarrow> bool" where
  "engine_keeps_files convert_file \<longleftrightarrow>
     (\<forall>call t r t'. convert_file call t = (r, t') \<longrightarrow>
        (\<forall>p. node_is_file t p \<longrightarrow> node_is_file t' p)
        \<and> (r = Inr () \<longrightarrow> node_is_file t' (parts (outputfile call))))"


text \<open>The sources of the engine calls in a log.\<close>

fun engine_sources :: "event list \<Rightarrow> path list" where
  "engine_sources [] = []"
| "engine_sources (ImportPypandoc # l) = engine_sources l"
| "engine_sources (ConvertFile call # l) = source_file call # engine_sources l"

subsection \<open>Engines and file systems to run the program on\<close>

fun write_file :: "node \<Rightarrow> string list \<Rightarrow> string \<Rightarrow> node" where
  "write_file (File c0) [] c = File c"
| "write_file (Dir es) [] c = Dir es"
| "write_file (File c0) (n # ns) c = File c0"
| "write_file (Dir es) (n # ns) c =
     (case map_of es n of
        None \<Rightarrow> if ns = [] then Dir (es @ [(n, File c)]) else Dir es
      | Some ch \<Rightarrow> Dir (AList.update n (write_file ch ns c) es))"

text \<open>
  An engine that writes the output file, and fails on the listed sources and where
  the output cannot be written.
\<close>

definition pandoc_stub :: "path list \<Rightarrow> engine" where
  "pandoc_stub failing call t =
     (let t' = write_file t (parts (outputfile call)) ''docx'' in
      if source_file call \<in> set failing \<or> \<not> node_is_file t' (parts (outputfile call))
      then (Inl (Exn RuntimeError ''Pandoc died with exitcode 1 during conversion'' None), t)
      else (Inr (), t'))"

definition notes_world :: world where
  "notes_world =
     \<lparr>fs = Dir [(''notes'',
                 Dir [(''sub2'', Dir [(''note.md'', File ''two'')]),
                      (''todo.txt'', File ''later''),
                      (''sub1'', Dir [(''note.md'', File ''one'')]),
                      (''top.md'', File ''# top'')]),
                (''empty'', Dir [])],
      cwd = [''notes''], log = [], stdout = [], stderr = []\<rparr>"

text \<open>The same files, listed by the operating system in another order.\<close>

definition notes_world_relisted :: world where
  "notes_world_relisted =
     \<lparr>fs = Dir [(''empty'', Dir []),
                (''notes'',
                 Dir [(''top.md'', File ''# top''),
                      (''sub1'', Dir [(''note.md'', File ''one'')]),
                      (''sub2'', Dir [(''note.md'', File ''two'')]),
                      (''todo.txt'', File ''later'')])],
      cwd = [''notes''], log = [], stdout = [], stderr = []\<rparr>"

text \<open>A directory named like a Markdown file, and a Markdown file with an upper-case extension.\<close>

definition docs_world :: world where
  "docs_world =
     \<lparr>fs = Dir [(''docs'',
                 Dir [(''README.MD'', File ''# Title''),
                      (''x.md'', Dir [])])],
      cwd = [], log = [], stdout = [], stderr = []\<rparr>"

text \<open>Two names that the text of a path and its components order differently.\<close>

definition dash_world :: world where
  "dash_world =
     \<lparr>fs = Dir [(''s'',
                 Dir [(''a-b'', Dir [(''c.md'', File ''c'')]),
                      (''a'', Dir [(''b.md'', File ''b'')])])],
      cwd = [], log = [], stdout = [], stderr = []\<rparr>"

definition five_world :: world where
  "five_world =
     \<lparr>fs = Dir [(''in'',
                 Dir [(''1.md'', File ''a''), (''2.md'', File ''b''), (''3.md'', File ''c''),
                      (''4.md'', File ''d''), (''5.md'', File ''e'')])],
      cwd = [], log = [], stdout = [], stderr = []\<rparr>"

section \<open>Properties\<close>

subsection \<open>The file system operations\<close>


text \<open>Creating directories neither creates, removes nor changes a regular file.\<close>

lemma lookup_new_dirs_not_file: "lookup (new_dirs ns) q \<noteq> Some (File c)"
proof (induction ns arbitrary: q)
  case Nil
  then show ?case by (cases q) auto
next
  case (Cons n ns)
  then show ?case by (cases q) auto
qed

lemma mkdirs_keeps_files:
  "mkdirs t p = Inr t' \<Longrightarrow> (lookup t' q = Some (File c)) = (lookup t q = Some (File c))"
proof (induction t p arbitrary: t' q rule: mkdirs.induct)
  case (1 c)
  then show ?case by simp
next
  case (2 es)
  then show ?case by auto
next
  case (3 c n ns)
  then show ?case by simp
next
  case (4 es n ns)
  show ?case
  proof (cases "map_of es n")
    case None
    with 4 have t': "t' = Dir (es @ [(n, new_dirs ns)])" by simp
    show ?thesis
    proof (cases q)
      case Nil
      then show ?thesis by (simp add: t')
    next
      case (Cons x xs)
      then show ?thesis
        using None by (auto simp: t' map_add_def lookup_new_dirs_not_file split: option.splits)
    qed
  next
    case (Some ch)
    with 4 obtain ch' where ch': "mkdirs ch ns = Inr ch'" and t': "t' = Dir (AList.update n ch' es)"
      by (auto split: sum.splits)
    have IH: "(lookup ch' xs = Some (File c)) = (lookup ch xs = Some (File c))" for xs
      using 4(1)[OF Some ch'] .
    show ?thesis
    proof (cases q)
      case Nil
      then show ?thesis by (simp add: t')
    next
      case (Cons x xs)
      then show ?thesis
        using Some IH[of xs] by (auto simp: t' update_conv' split: option.splits)
    qed
  qed
qed



subsection \<open>Suffixes, stems and flattened names\<close>

lemma stem_of_nonempty: "n \<noteq> [] \<Longrightarrow> stem_of n \<noteq> []"
  by (auto simp: stem_of_def Let_def)

lemma cut_suffix_is_stem:
  "(if suffix_of n = [] then n @ suf
    else take (length n - length (suffix_of n)) n @ suf) = stem_of n @ suf"
proof (cases "0 < rfind CHR ''.'' n \<and> rfind CHR ''.'' n < int (length n) - 1")
  case True
  then have "nat (rfind CHR ''.'' n) < length n" by linarith
  then show ?thesis using True
    by (simp add: suffix_of_def stem_of_def Let_def)
next
  case False
  then show ?thesis by (auto simp: suffix_of_def stem_of_def Let_def)
qed

lemma with_suffix_docx:
  "name p \<noteq> [] \<Longrightarrow>
   with_suffix p ''.docx'' = Inr (Path (is_absolute p) (butlast (parts p) @ [stem p @ ''.docx'']))"
  using cut_suffix_is_stem[of "name p" "''.docx''"]
  by (simp add: with_suffix_def sep_def Let_def suffix_def stem_def)

lemma with_suffix_empty:
  "name p \<noteq> [] \<Longrightarrow>
   with_suffix p [] = Inr (Path (is_absolute p) (butlast (parts p) @ [stem p]))"
  using cut_suffix_is_stem[of "name p" "[]"]
  by (simp add: with_suffix_def sep_def Let_def suffix_def stem_def)

lemma rfind_append_docx: "rfind CHR ''.'' (s @ ''.docx'') = int (length s)"
  by (simp add: rfind_def)

lemma suffix_of_append_docx: "s \<noteq> [] \<Longrightarrow> suffix_of (s @ ''.docx'') = ''.docx''"
  by (simp add: suffix_of_def rfind_append_docx Let_def)

lemma stem_of_append_docx: "s \<noteq> [] \<Longrightarrow> stem_of (s @ ''.docx'') = s"
  by (simp add: stem_of_def rfind_append_docx Let_def)

lemma split_on_no_sep: "c \<notin> set s \<Longrightarrow> split_on c s = [s]"
  by (induction s) auto

lemma parse_path_single:
  "sep \<notin> set s \<Longrightarrow> s \<noteq> [] \<Longrightarrow> s \<noteq> ''.'' \<Longrightarrow> parse_path s = Path False [s]"
  by (cases s) (auto simp: parse_path_def split_on_no_sep)

lemma replace_char_id: "old \<notin> set x \<Longrightarrow> replace_char old new x = x"
  by (induction x) (auto simp: replace_char_def)

lemma replace_char_append:
  "replace_char old new (x @ y) = replace_char old new x @ replace_char old new y"
  by (simp add: replace_char_def)

lemma replace_char_join:
  "\<forall>x\<in>set xs. old \<notin> set x \<Longrightarrow>
   replace_char old new (join_with [old] xs) = join_with [new] xs"
proof (induction xs rule: induct_list012)
  case 1
  then show ?case by (simp add: replace_char_def)
next
  case (2 x)
  then show ?case by (simp add: replace_char_id)
next
  case (3 x y ys)
  then have "replace_char old new (join_with [old] (y # ys)) = join_with [new] (y # ys)" by simp
  moreover have "replace_char old new (old # s) = new # replace_char old new s" for s
    by (simp add: replace_char_def)
  ultimately show ?case using 3(3) by (simp add: replace_char_append replace_char_id)
qed

lemma replace_char_free: "old \<noteq> new \<Longrightarrow> old \<notin> set (replace_char old new s)"
  by (auto simp: replace_char_def)

subsection \<open>Discovered files lie below the root\<close>

lemma iterate_directories_prefix:
  "d \<in> set (iterate_directories p t) \<Longrightarrow> \<exists>r. d = p @ r"
proof (induction p t arbitrary: d rule: iterate_directories.induct)
  case (1 p c)
  then show ?case by simp
next
  case (2 p es)
  from 2(2) consider "d = p" | e where "e \<in> set es" "d \<in> set (iterate_directories (p @ [fst e]) (snd e))"
    by auto
  then show ?case
  proof cases
    case 1
    then show ?thesis by simp
  next
    case 2
    from "2.IH"[OF 2] obtain r where "d = (p @ [fst e]) @ r" by blast
    then show ?thesis by simp
  qed
qed

lemma yield_once_subset: "set (yield_once ys xs) \<subseteq> set xs"
  by (induction ys xs rule: yield_once.induct) auto

lemma fnmatch_md_nonempty: "fnmatch_md n \<Longrightarrow> n \<noteq> []"
  by (auto simp: fnmatch_md_def)

lemma rglob_md_under:
  assumes "q \<in> set (rglob_md t folder)"
  shows "\<exists>rel. rel \<noteq> [] \<and> last rel \<noteq> [] \<and> q = Path True (folder @ rel)"
proof -
  obtain es where es: "lookup t folder = Some (Dir es)"
    using assms by (cases "lookup t folder") (auto simp: rglob_md_def split: node.splits)
  have q: "q \<in> Path True ` set (yield_once []
               (concat (map (wildcard_select t) (iterate_directories folder (Dir es)))))"
    using assms unfolding rglob_md_def es by (simp del: iterate_directories.simps)
  from q obtain x where x: "q = Path True x"
    and "x \<in> set (concat (map (wildcard_select t) (iterate_directories folder (Dir es))))"
    using yield_once_subset by fastforce
  then obtain d n where d: "d \<in> set (iterate_directories folder (Dir es))"
    and n: "fnmatch_md n" and xd: "x = d @ [n]"
    by (auto simp: wildcard_select_def)
  from iterate_directories_prefix[OF d] obtain r where "d = folder @ r" by blast
  with xd x n have "q = Path True (folder @ (r @ [n]))" "last (r @ [n]) \<noteq> []" "r @ [n] \<noteq> []"
    by (auto simp: fnmatch_md_nonempty)
  then show ?thesis by blast
qed

lemma iterdir_md_under:
  assumes "q \<in> set (iterdir t folder)" and "lower (suffix q) = ''.md''"
  shows "\<exists>rel. rel \<noteq> [] \<and> last rel \<noteq> [] \<and> q = Path True (folder @ rel)"
proof -
  from assms(1) obtain n where q: "q = Path True (folder @ [n])"
    by (auto simp: iterdir_def)
  have "n \<noteq> []"
  proof
    assume "n = []"
    then have "suffix q = []" by (simp add: q suffix_def name_def suffix_of_def rfind_def)
    with assms(2) show False by (simp add: lower_def)
  qed
  with q have "q = Path True (folder @ [n])" "last [n] \<noteq> []" "[n] \<noteq> []" by auto
  then show ?thesis by blast
qed

lemma candidate_paths_under:
  assumes "q \<in> set (candidate_paths w folder recursive)"
  shows "\<exists>rel. rel \<noteq> [] \<and> last rel \<noteq> [] \<and> q = Path True (parts folder @ rel)"
  using assms rglob_md_under[of q "fs w" "parts folder"] iterdir_md_under[of q "fs w" "parts folder"]
  by (auto simp: candidate_paths_def split: if_splits)

lemma collected_under_folder:
  assumes "collect_md_files w folder0 recursive = Inr files" and "md \<in> set files"
  shows "\<exists>rel. rel \<noteq> [] \<and> last rel \<noteq> [] \<and> md = Path True (parts (resolve w folder0) @ rel)"
proof -
  from assms have "md \<in> set (candidate_paths w (resolve w folder0) recursive)"
    by (auto simp: collect_md_files_def Let_def split: if_splits)
  then show ?thesis by (rule candidate_paths_under)
qed

lemma str_path_relative: "xs \<noteq> [] \<Longrightarrow> str_path (Path False xs) = join_with [sep] xs"
  by (simp add: str_path_def)

lemma batch_docx_path_under:
  assumes "rel \<noteq> []" and "last rel \<noteq> []"
  shows "batch_docx_path w (Path True fp) (Some od) (Path True (fp @ rel)) =
           Inr (Path True (parts (resolve w od) @ [flattened_stem rel @ ''.docx'']))"
proof -
  have rt: "relative_to (Path True (fp @ rel)) (Path True fp) = Inr (Path False rel)"
    by (simp add: relative_to_def)
  have nm: "name (Path False rel) \<noteq> []" using assms by (simp add: name_def)
  have ws: "with_suffix (Path False rel) [] = Inr (Path False (butlast rel @ [stem_of (last rel)]))"
    using with_suffix_empty[OF nm] assms by (simp add: stem_def name_def)
  have sp: "str_path (Path False (butlast rel @ [stem_of (last rel)])) =
              join_with [sep] (butlast rel @ [stem_of (last rel)])"
    by (rule str_path_relative) simp
  let ?s = "replace_char sep CHR ''_'' (join_with [sep] (butlast rel @ [stem_of (last rel)]))"
  have "sep \<notin> set ?s" by (rule replace_char_free) (simp add: sep_def)
  then have "sep \<notin> set (?s @ ''.docx'')" by (simp add: sep_def)
  then have pp: "parse_path (?s @ ''.docx'') = Path False [?s @ ''.docx'']"
    by (rule parse_path_single) auto
  have jp: "joinpath (resolve w od) (?s @ ''.docx'') = Path True (parts (resolve w od) @ [?s @ ''.docx''])"
    by (simp add: joinpath_def pp Let_def resolve_def)
  show ?thesis
    by (simp add: batch_docx_path_def rt ws sp jp flattened_stem_def Let_def)
qed

subsection \<open>What one conversion does to the world\<close>

lemma write_file_keeps_files:
  "node_is_file t p \<Longrightarrow> node_is_file (write_file t q c) p"
proof (induction t q c arbitrary: p rule: write_file.induct)
  case (1 c0 c)
  then show ?case by (cases p) (auto simp: node_is_file_def)
next
  case (2 es c)
  then show ?case by simp
next
  case (3 c0 n ns c)
  then show ?case by simp
next
  case (4 es n ns c)
  show ?case
  proof (cases p)
    case Nil
    with 4(2) show ?thesis by (simp add: node_is_file_def)
  next
    case (Cons x xs)
    show ?thesis
    proof (cases "map_of es n")
      case None
      with 4(2) Cons show ?thesis
        by (auto simp: node_is_file_def map_add_def split: option.splits)
    next
      case (Some ch)
      have "node_is_file ch xs \<Longrightarrow> node_is_file (write_file ch ns c) xs"
        using 4(1)[OF Some] .
      with 4(2) Cons Some show ?thesis
        by (auto simp: node_is_file_def update_conv' split: option.splits)
    qed
  qed
qed

lemma pandoc_stub_keeps_files: "engine_keeps_files (pandoc_stub failing)"
  unfolding engine_keeps_files_def pandoc_stub_def
  by (auto simp: Let_def write_file_keeps_files split: if_splits)

lemma node_is_file_iff: "node_is_file t q \<longleftrightarrow> (\<exists>c. lookup t q = Some (File c))"
  by (auto simp: node_is_file_def split: option.splits node.splits)

lemma mkdir_parents_keeps_files:
  "mkdir_parents t p = Inr t' \<Longrightarrow> node_is_file t' q = node_is_file t q"
proof -
  assume "mkdir_parents t p = Inr t'"
  then have m: "mkdirs t (parts p) = Inr t'"
    by (auto simp: mkdir_parents_def split: sum.splits)
  show ?thesis
    unfolding node_is_file_iff using mkdirs_keeps_files[OF m] by simp
qed

lemma convert_cwd:
  "convert_md_to_docx pypandoc w md docx ref = (r, w1) \<Longrightarrow> cwd w1 = cwd w"
  by (auto simp: convert_md_to_docx_def Let_def split: if_splits sum.splits option.splits prod.splits)

lemma convert_keeps_files:
  assumes "convert_md_to_docx pypandoc w md docx ref = (r, w1)"
    and "\<forall>convert_file. pypandoc = Some convert_file \<longrightarrow> engine_keeps_files convert_file"
    and "is_file w p"
  shows "is_file w1 p"
  using assms
  by (auto simp: convert_md_to_docx_def Let_def is_file_def mkdir_parents_keeps_files
      engine_keeps_files_def
      split: if_splits sum.splits option.splits prod.splits)

lemma convert_writes_output:
  assumes "convert_md_to_docx pypandoc w md docx ref = (Inr u, w1)"
    and "\<forall>convert_file. pypandoc = Some convert_file \<longrightarrow> engine_keeps_files convert_file"
  shows "is_file w1 (resolve w docx)"
  using assms
  apply (auto simp: convert_md_to_docx_def Let_def is_file_def 
      split: if_splits sum.splits option.splits prod.splits)
   apply (force simp: engine_keeps_files_def)+
  done

lemma engine_sources_append: "engine_sources (l @ l') = engine_sources l @ engine_sources l'"
  by (induction l rule: engine_sources.induct) auto

lemma convert_log:
  assumes "convert_md_to_docx pypandoc w md docx ref = (r, w1)"
  shows "\<exists>new. log w1 = log w @ new \<and> set (engine_sources new) \<subseteq> {resolve w md}"
proof -
  consider "log w1 = log w @ []" | "log w1 = log w @ [ImportPypandoc]"
    | call where "log w1 = log w @ [ImportPypandoc, ConvertFile call]" "source_file call = resolve w md"
    using assms
    by (auto simp: convert_md_to_docx_def Let_def
        split: if_splits sum.splits option.splits prod.splits)
  then show ?thesis
  proof cases
    case 1
    then have "log w1 = log w @ [] \<and> set (engine_sources []) \<subseteq> {resolve w md}" by simp
    then show ?thesis by blast
  next
    case 2
    then have "log w1 = log w @ [ImportPypandoc] \<and> set (engine_sources [ImportPypandoc]) \<subseteq> {resolve w md}" by simp
    then show ?thesis by blast
  next
    case 3
    then have "log w1 = log w @ [ImportPypandoc, ConvertFile call]
       \<and> set (engine_sources [ImportPypandoc, ConvertFile call]) \<subseteq> {resolve w md}" by simp
    then show ?thesis by blast
  qed
qed

subsection \<open>What the loop of \<^verbatim>\<open>run_folder\<close> does to the world\<close>

lemma resolve_cwd: "cwd w1 = cwd w \<Longrightarrow> resolve w1 p = resolve w p"
  by (simp add: resolve_def)

lemma batch_docx_path_cwd:
  assumes "cwd w1 = cwd w"
  shows "batch_docx_path w1 folder od md = batch_docx_path w folder od md"
  unfolding batch_docx_path_def resolve_cwd[OF assms] ..

lemma convert_each_append:
  "convert_each pypandoc folder od ref w acc (pre @ rest) =
     (case convert_each pypandoc folder od ref w acc pre of
        (Inl e, w1) \<Rightarrow> (Inl e, w1)
      | (Inr acc1, w1) \<Rightarrow> convert_each pypandoc folder od ref w1 acc1 rest)"
  by (induction pre arbitrary: w acc) (auto split: sum.splits prod.splits)

lemma convert_each_effect:
  assumes "convert_each pypandoc folder od ref w acc files = (r, w')"
    and "\<forall>convert_file. pypandoc = Some convert_file \<longrightarrow> engine_keeps_files convert_file"
  shows "cwd w' = cwd w
       \<and> (\<forall>p. is_file w p \<longrightarrow> is_file w' p)
       \<and> (\<exists>new. log w' = log w @ new \<and> set (engine_sources new) \<subseteq> resolve w ` set files)
       \<and> (\<forall>outs. r = Inr outs \<longrightarrow>
            (\<exists>new. outs = acc @ new \<and> length new = length files
               \<and> (\<forall>d\<in>set new. is_file w' (resolve w d))))"
  using assms(1)
proof (induction files arbitrary: w acc)
  case Nil
  then show ?case by auto
next
  case (Cons md rest)
  show ?case
  proof (cases "batch_docx_path w folder od md")
    case (Inl e)
    with Cons.prems show ?thesis by auto
  next
    case (Inr docx)
    obtain r1 w1 where c: "convert_md_to_docx pypandoc w md docx ref = (r1, w1)"
      by (cases "convert_md_to_docx pypandoc w md docx ref")
    have cwd1: "cwd w1 = cwd w" using c by (rule convert_cwd)
    have keep1: "\<forall>p. is_file w p \<longrightarrow> is_file w1 p"
      using convert_keeps_files[OF c assms(2)] by blast
    obtain new1 where log1: "log w1 = log w @ new1" "set (engine_sources new1) \<subseteq> {resolve w md}"
      using convert_log[OF c] by blast
    show ?thesis
    proof (cases r1)
      case (Inl e)
      with Cons.prems Inr c have "r = Inl e" "w' = w1" by auto
      with cwd1 keep1 log1 show ?thesis by auto
    next
      case (Inr u)
      with Cons.prems \<open>batch_docx_path w folder od md = Inr docx\<close> c
      have rest: "convert_each pypandoc folder od ref w1 (acc @ [docx]) rest = (r, w')" by simp
      note IH = Cons.IH[OF rest]
      have out1: "is_file w1 (resolve w docx)"
        using convert_writes_output[OF c[unfolded Inr] assms(2)] .
      from IH have cwd': "cwd w' = cwd w" using cwd1 by simp
      have keep': "\<forall>p. is_file w p \<longrightarrow> is_file w' p" using IH keep1 by blast
      from IH obtain new2 where log2: "log w' = log w1 @ new2"
        "set (engine_sources new2) \<subseteq> resolve w1 ` set rest" by blast
      have "log w' = log w @ (new1 @ new2)
          \<and> set (engine_sources (new1 @ new2)) \<subseteq> resolve w ` set (md # rest)"
        using log1 log2 resolve_cwd[OF cwd1] by (auto simp: engine_sources_append)
      then have logs: "\<exists>new. log w' = log w @ new
          \<and> set (engine_sources new) \<subseteq> resolve w ` set (md # rest)" by blast
      have outs: "\<exists>new. outs = acc @ new \<and> length new = length (md # rest)
               \<and> (\<forall>d\<in>set new. is_file w' (resolve w d))" if "r = Inr outs" for outs
      proof -
        from IH that obtain new where n: "outs = (acc @ [docx]) @ new" "length new = length rest"
          "\<forall>d\<in>set new. is_file w' (resolve w1 d)" by blast
        have "is_file w' (resolve w docx)" using IH out1 by blast
        with n have "outs = acc @ (docx # new) \<and> length (docx # new) = length (md # rest)
               \<and> (\<forall>d\<in>set (docx # new). is_file w' (resolve w d))"
          using resolve_cwd[OF cwd1] by simp
        then show ?thesis by blast
      qed
      from cwd' keep' logs outs show ?thesis by blast
    qed
  qed
qed

section \<open>The claims\<close>

subsection \<open>Missing inputs\<close>



subsection \<open>A missing style reference\<close>





subsection \<open>The engine stage\<close>

text \<open>
  Claim C4, as stated, fails. With the engine not importable, the \<^verbatim>\<open>RuntimeError\<close>
  that is raised carries no cause: the source raises it \<^verbatim>\<open>from None\<close>, which
  suppresses the \<^verbatim>\<open>ImportError\<close> instead of wrapping it.
\<close>

theorem engine_unavailable_no_cause_counterexample:
  "(case fst (convert_md_to_docx None notes_world
               (Path False [''top.md'']) (Path False [''top.docx'']) None) of
      Inl e \<Rightarrow> kind e = RuntimeError \<and> cause e = None
    | Inr u \<Rightarrow> False)"
  by code_simp

text \<open>
  Claim C4, amended. Whenever a call of \<^verbatim>\<open>convert_md_to_docx\<close> gets as far as the engine
  (the log grows): without an importable engine it raises \<^verbatim>\<open>RuntimeError\<close> with the
  fixed installation hint and no cause, after one import attempt; with an engine it
  imports it and calls it exactly once, on the resolved source and destination, in the
  file system left by the directory creation, and when that one call raised a
  \<^verbatim>\<open>RuntimeError\<close> the conversion raises a \<^verbatim>\<open>RuntimeError\<close>. Nothing is retried.
\<close>

theorem engine_stage_single_attempt:
  "(convert_md_to_docx None w md_path docx_path reference_doc = (r, w') \<longrightarrow>
      log w' \<noteq> log w \<longrightarrow>
      r = Inl (Exn RuntimeError
                ''pypandoc is required. Install with: pip install pypandoc_binary'' None)
      \<and> log w' = log w @ [ImportPypandoc])
 \<and> (convert_md_to_docx (Some convert_file) w md_path docx_path reference_doc = (r, w') \<longrightarrow>
      log w' \<noteq> log w \<longrightarrow>
      (\<exists>call t1. mkdir_parents (fs w) (parent (resolve w docx_path)) = Inr t1
         \<and> source_file call = resolve w md_path \<and> outputfile call = resolve w docx_path
         \<and> log w' = log w @ [ImportPypandoc, ConvertFile call]
         \<and> (\<forall>e. fst (convert_file call t1) = Inl e \<and> kind e = RuntimeError \<longrightarrow>
                (\<exists>e'. r = Inl e' \<and> kind e' = RuntimeError))))"
  by (auto simp: convert_md_to_docx_def Let_def split: if_splits sum.splits prod.splits)

theorem engine_stage_witness:
  "log (snd (convert_md_to_docx None notes_world
          (Path False [''top.md'']) (Path False [''top.docx'']) None)) \<noteq> log notes_world
   \<and> fst (convert_md_to_docx None notes_world
          (Path False [''top.md'']) (Path False [''top.docx'']) None)
       = Inl (Exn RuntimeError
               ''pypandoc is required. Install with: pip install pypandoc_binary'' None)
   \<and> log (snd (convert_md_to_docx (Some (pandoc_stub [Path True [''notes'', ''top.md'']])) notes_world
          (Path False [''top.md'']) (Path False [''top.docx'']) None)) \<noteq> log notes_world
   \<and> fst (convert_md_to_docx (Some (pandoc_stub [Path True [''notes'', ''top.md'']])) notes_world
          (Path False [''top.md'']) (Path False [''top.docx'']) None)
       = Inl (Exn RuntimeError ''Pandoc died with exitcode 1 during conversion'' None)
   \<and> (\<exists>call. source_file call = Path True [''notes'', ''top.md'']
         \<and> log (snd (convert_md_to_docx (Some (pandoc_stub [Path True [''notes'', ''top.md'']]))
                  notes_world (Path False [''top.md'']) (Path False [''top.docx'']) None))
             = log notes_world @ [ImportPypandoc, ConvertFile call])"
proof -
  let ?md = "Path False [''top.md'']" and ?docx = "Path False [''top.docx'']"
  let ?stub = "pandoc_stub [Path True [''notes'', ''top.md'']]"
  let ?a = "convert_md_to_docx None notes_world ?md ?docx None"
  let ?b = "convert_md_to_docx (Some ?stub) notes_world ?md ?docx None"
  have la: "log (snd ?a) \<noteq> log notes_world" by code_simp
  have lb: "log (snd ?b) \<noteq> log notes_world" by code_simp
  have rb: "fst ?b = Inl (Exn RuntimeError ''Pandoc died with exitcode 1 during conversion'' None)"
    by code_simp
  have rs: "resolve notes_world ?md = Path True [''notes'', ''top.md'']" by code_simp
  have a: "fst ?a = Inl (Exn RuntimeError
               ''pypandoc is required. Install with: pip install pypandoc_binary'' None)"
    using engine_stage_single_attempt[of notes_world ?md ?docx None "fst ?a" "snd ?a" ?stub] la
    by simp
  have b: "\<exists>call. source_file call = Path True [''notes'', ''top.md'']
         \<and> log (snd ?b) = log notes_world @ [ImportPypandoc, ConvertFile call]"
    using engine_stage_single_attempt[of notes_world ?md ?docx None "fst ?b" "snd ?b" ?stub] lb rs
    by auto
  from la a lb rb b show ?thesis by blast
qed

subsection \<open>Directories are created before the engine is looked for\<close>





subsection \<open>The destination of the single-file mode\<close>

text \<open>
  Claim C9, as stated, fails for an input path without a final component (the root, or
  the empty relative path): with no explicit output, \<^verbatim>\<open>with_suffix\<close> raises
  \<^verbatim>\<open>ValueError\<close> and there is no destination.
\<close>

theorem nameless_input_counterexample:
  "single_out_path notes_world (Path True []) None =
     Inl (Exn ValueError (repr_path (Path True []) @ '' has an empty name'') None)
   \<and> run_single_file (Some (pandoc_stub [])) notes_world (Path True []) None None =
     (Inl (Exn ValueError (repr_path (Path True []) @ '' has an empty name'') None), notes_world)"
  by code_simp

text \<open>
  Claim C9, amended. In single-file mode an explicit output, resolved to an absolute
  path, is the destination. Without one, for every input path that has a final
  component, the destination is the input path with the same parent, the same stem and
  the suffix \<^verbatim>\<open>.docx\<close>. The destination depends on the world through the current
  directory only, so not on any file content, and it is what \<^verbatim>\<open>run_single_file\<close>
  returns when it returns.
\<close>

theorem single_file_destination:
  "single_out_path w md_path (Some out) = Inr (resolve w out)
   \<and> (name md_path \<noteq> [] \<longrightarrow>
        (\<exists>d. single_out_path w md_path None = Inr d
           \<and> parent d = parent md_path
           \<and> stem d = stem md_path
           \<and> suffix d = ''.docx''))
   \<and> (\<forall>w'. cwd w' = cwd w \<longrightarrow> single_out_path w' md_path output = single_out_path w md_path output)
   \<and> (\<forall>p w1. run_single_file pypandoc w md_path output reference_doc = (Inr p, w1)
         \<longrightarrow> single_out_path w md_path output = Inr p)"
proof -
  have a: "single_out_path w md_path (Some out) = Inr (resolve w out)"
    by (simp add: single_out_path_def)
  have b: "\<exists>d. single_out_path w md_path None = Inr d
           \<and> parent d = parent md_path
           \<and> stem d = stem md_path
           \<and> suffix d = ''.docx''" if ne: "name md_path \<noteq> []"
  proof -
    let ?d = "Path (is_absolute md_path) (butlast (parts md_path) @ [stem md_path @ ''.docx''])"
    have s: "stem md_path \<noteq> []" using ne by (simp add: stem_def stem_of_nonempty)
    have "single_out_path w md_path None = Inr ?d"
      using ne by (simp add: single_out_path_def with_suffix_docx)
    moreover have "parent ?d = parent md_path" by (simp add: parent_def)
    moreover have "stem ?d = stem md_path"
      using s by (simp add: stem_def name_def stem_of_append_docx)
    moreover have "suffix ?d = ''.docx''"
      using s by (simp add: suffix_def name_def suffix_of_append_docx)
    ultimately show ?thesis by blast
  qed
  have c: "\<forall>w'. cwd w' = cwd w \<longrightarrow> single_out_path w' md_path output = single_out_path w md_path output"
    by (simp add: single_out_path_def resolve_def split: option.splits)
  have d: "\<forall>p w1. run_single_file pypandoc w md_path output reference_doc = (Inr p, w1)
         \<longrightarrow> single_out_path w md_path output = Inr p"
    by (auto simp: run_single_file_def split: sum.splits prod.splits)
  from a b c d show ?thesis by blast
qed

theorem single_file_destination_witness:
  "name (Path False [''top.md'']) \<noteq> []
   \<and> cwd notes_world_relisted = cwd notes_world
   \<and> single_out_path notes_world_relisted (Path False [''top.md'']) None =
       single_out_path notes_world (Path False [''top.md'']) None
   \<and> fst (run_single_file (Some (pandoc_stub [])) notes_world (Path False [''top.md'']) None None)
       = Inr (Path False [''top.docx''])
   \<and> single_out_path notes_world (Path False [''top.md'']) None = Inr (Path False [''top.docx''])
   \<and> (\<exists>d. single_out_path notes_world (Path False [''top.md'']) None = Inr d
           \<and> parent d = parent (Path False [''top.md''])
           \<and> stem d = stem (Path False [''top.md''])
           \<and> suffix d = ''.docx'')"
proof -
  let ?md = "Path False [''top.md'']"
  let ?run = "run_single_file (Some (pandoc_stub [])) notes_world ?md None None"
  note inst = single_file_destination[of notes_world ?md ?md None "Some (pandoc_stub [])" None]
  have n: "name ?md \<noteq> []" by code_simp
  have c: "cwd notes_world_relisted = cwd notes_world" by code_simp
  have r: "fst ?run = Inr (Path False [''top.docx''])" by code_simp
  then have r': "?run = (Inr (Path False [''top.docx'']), snd ?run)"
    by (metis prod.collapse)
  from inst c have same: "single_out_path notes_world_relisted ?md None =
       single_out_path notes_world ?md None" by blast
  from inst r' have dest: "single_out_path notes_world ?md None = Inr (Path False [''top.docx''])"
    by blast
  from inst n have ex: "\<exists>d. single_out_path notes_world ?md None = Inr d
           \<and> parent d = parent ?md \<and> stem d = stem ?md \<and> suffix d = ''.docx''"
    by blast
  from n c same r dest ex show ?thesis by blast
qed

subsection \<open>The destination in batch mode\<close>

lemma stem_of_subset: "set (stem_of n) \<subseteq> set n"
  by (auto simp: stem_of_def Let_def dest: in_set_takeD)

text \<open>
  Claim C1. Every discovered file lies strictly below the resolved root:
  \<^verbatim>\<open>relative_to\<close> succeeds on it, so the fallback to the bare file name is never taken.
  With an output directory its destination is the resolved output directory joined
  with one component: the flattened stem of its path relative to the root (extension
  of the last component stripped, separators replaced by underscores) followed by
  \<^verbatim>\<open>.docx\<close>. The flattened stem holds no separator, and for components free of
  separators it is the stripped components joined by underscores.
\<close>

theorem batch_destination_of_discovered_file:
  assumes "collect_md_files w folder recursive = Inr files" and "md_path \<in> set files"
  shows "\<exists>rel. rel \<noteq> []
           \<and> md_path = Path True (parts (resolve w folder) @ rel)
           \<and> relative_to md_path (resolve w folder) = Inr (Path False rel)
           \<and> batch_docx_path w (resolve w folder) (Some output_dir) md_path =
               Inr (Path True (parts (resolve w output_dir) @ [flattened_stem rel @ ''.docx'']))
           \<and> sep \<notin> set (flattened_stem rel)
           \<and> ((\<forall>c\<in>set rel. sep \<notin> set c) \<longrightarrow>
                flattened_stem rel = join_with ''_'' (butlast rel @ [stem_of (last rel)]))"
proof -
  from collected_under_folder[OF assms] obtain rel where rel: "rel \<noteq> []" "last rel \<noteq> []"
    and md: "md_path = Path True (parts (resolve w folder) @ rel)" by blast
  have r: "resolve w folder = Path True (parts (resolve w folder))"
    by (simp add: resolve_def)
  have rt: "relative_to md_path (resolve w folder) = Inr (Path False rel)"
    by (simp add: md relative_to_def resolve_def)
  have "batch_docx_path w (Path True (parts (resolve w folder))) (Some output_dir)
            (Path True (parts (resolve w folder) @ rel))
          = Inr (Path True (parts (resolve w output_dir) @ [flattened_stem rel @ ''.docx'']))"
    using rel by (rule batch_docx_path_under)
  then have dest: "batch_docx_path w (resolve w folder) (Some output_dir) md_path =
               Inr (Path True (parts (resolve w output_dir) @ [flattened_stem rel @ ''.docx'']))"
    using md r by metis
  have nosep: "sep \<notin> set (flattened_stem rel)"
    unfolding flattened_stem_def by (rule replace_char_free) (simp add: sep_def)
  have joined: "flattened_stem rel = join_with ''_'' (butlast rel @ [stem_of (last rel)])"
    if clean: "\<forall>c\<in>set rel. sep \<notin> set c"
  proof -
    have "sep \<notin> set (last rel)" using clean rel(1) by simp
    then have "sep \<notin> set (stem_of (last rel))" using stem_of_subset by blast
    moreover have "\<forall>c\<in>set (butlast rel). sep \<notin> set c"
      using clean by (meson in_set_butlastD)
    ultimately have "\<forall>x\<in>set (butlast rel @ [stem_of (last rel)]). sep \<notin> set x" by auto
    then show ?thesis
      unfolding flattened_stem_def by (rule replace_char_join)
  qed
  from rel(1) md rt dest nosep joined show ?thesis by blast
qed

theorem batch_destination_witness:
  "collect_md_files notes_world (Path False []) True =
     Inr [Path True [''notes'', ''sub1'', ''note.md''],
          Path True [''notes'', ''sub2'', ''note.md''],
          Path True [''notes'', ''top.md'']]
   \<and> (\<exists>rel. rel \<noteq> []
         \<and> Path True [''notes'', ''sub1'', ''note.md'']
             = Path True (parts (resolve notes_world (Path False [])) @ rel)
         \<and> batch_docx_path notes_world (resolve notes_world (Path False []))
               (Some (Path True [''out''])) (Path True [''notes'', ''sub1'', ''note.md'']) =
               Inr (Path True (parts (resolve notes_world (Path True [''out'']))
                      @ [flattened_stem rel @ ''.docx''])))
   \<and> batch_docx_path notes_world (resolve notes_world (Path False []))
         (Some (Path True [''out''])) (Path True [''notes'', ''sub1'', ''note.md''])
       = Inr (Path True [''out'', ''sub1_note.docx''])
   \<and> batch_docx_path notes_world (resolve notes_world (Path False []))
         (Some (Path True [''out''])) (Path True [''notes'', ''sub2'', ''note.md''])
       = Inr (Path True [''out'', ''sub2_note.docx''])
   \<and> fst (run_folder (Some (pandoc_stub [])) notes_world (Path False [])
             (Some (Path True [''out''])) True None)
       = Inr [Path True [''out'', ''sub1_note.docx''],
              Path True [''out'', ''sub2_note.docx''],
              Path True [''out'', ''top.docx'']]
   \<and> is_file (snd (run_folder (Some (pandoc_stub [])) notes_world (Path False [])
             (Some (Path True [''out''])) True None)) (Path True [''out'', ''sub1_note.docx''])
   \<and> is_file (snd (run_folder (Some (pandoc_stub [])) notes_world (Path False [])
             (Some (Path True [''out''])) True None)) (Path True [''out'', ''sub2_note.docx''])"
proof -
  have c: "collect_md_files notes_world (Path False []) True =
     Inr [Path True [''notes'', ''sub1'', ''note.md''],
          Path True [''notes'', ''sub2'', ''note.md''],
          Path True [''notes'', ''top.md'']]"
    by code_simp
  have m: "Path True [''notes'', ''sub1'', ''note.md'']
      \<in> set [Path True [''notes'', ''sub1'', ''note.md''],
          Path True [''notes'', ''sub2'', ''note.md''],
          Path True [''notes'', ''top.md'']]"
    by simp
  from batch_destination_of_discovered_file[OF c m, of "Path True [''out'']"]
  have ex: "\<exists>rel. rel \<noteq> []
         \<and> Path True [''notes'', ''sub1'', ''note.md'']
             = Path True (parts (resolve notes_world (Path False [])) @ rel)
         \<and> batch_docx_path notes_world (resolve notes_world (Path False []))
               (Some (Path True [''out''])) (Path True [''notes'', ''sub1'', ''note.md'']) =
               Inr (Path True (parts (resolve notes_world (Path True [''out'']))
                      @ [flattened_stem rel @ ''.docx'']))"
    by blast
  have d1: "batch_docx_path notes_world (resolve notes_world (Path False []))
         (Some (Path True [''out''])) (Path True [''notes'', ''sub1'', ''note.md''])
       = Inr (Path True [''out'', ''sub1_note.docx''])"
    by code_simp
  have d2: "batch_docx_path notes_world (resolve notes_world (Path False []))
         (Some (Path True [''out''])) (Path True [''notes'', ''sub2'', ''note.md''])
       = Inr (Path True [''out'', ''sub2_note.docx''])"
    by code_simp
  have r: "fst (run_folder (Some (pandoc_stub [])) notes_world (Path False [])
             (Some (Path True [''out''])) True None)
       = Inr [Path True [''out'', ''sub1_note.docx''],
              Path True [''out'', ''sub2_note.docx''],
              Path True [''out'', ''top.docx'']]"
    by code_simp
  have f1: "is_file (snd (run_folder (Some (pandoc_stub [])) notes_world (Path False [])
             (Some (Path True [''out''])) True None)) (Path True [''out'', ''sub1_note.docx''])"
    by code_simp
  have f2: "is_file (snd (run_folder (Some (pandoc_stub [])) notes_world (Path False [])
             (Some (Path True [''out''])) True None)) (Path True [''out'', ''sub2_note.docx''])"
    by code_simp
  from c ex d1 d2 r f1 f2 show ?thesis by blast
qed

subsection \<open>The batch stops at the first failure\<close>

text \<open>
  Claim C2. Let the discovered files be \<open>pre @ f # post\<close>, let the conversions of
  \<open>pre\<close> succeed in discovery order with destinations \<open>outs\<close>, leaving the world
  \<open>w1\<close>, and let the conversion of \<open>f\<close> raise \<open>e\<close>, leaving \<open>w2\<close>. Then
  \<^verbatim>\<open>run_folder\<close> raises \<open>e\<close> and returns no list, in the world \<open>w2\<close> as the failing
  conversion left it, whatever \<open>post\<close> is: every engine call logged since the start
  has a source among \<open>pre\<close> and \<open>f\<close>. With an engine that writes its output and keeps
  existing files, each destination of \<open>pre\<close> is a regular file in \<open>w2\<close>.
\<close>

theorem batch_stops_at_first_failure:
  assumes collect: "collect_md_files w folder recursive = Inr (pre @ f # post)"
    and contract: "\<forall>convert_file. pypandoc = Some convert_file \<longrightarrow> engine_keeps_files convert_file"
    and pre_ok: "convert_each pypandoc (resolve w folder) output_dir reference_doc w [] pre = (Inr outs, w1)"
    and dest: "batch_docx_path w1 (resolve w folder) output_dir f = Inr d"
    and fail: "convert_md_to_docx pypandoc w1 f d reference_doc = (Inl e, w2)"
  shows "run_folder pypandoc w folder output_dir recursive reference_doc = (Inl e, w2)
       \<and> length outs = length pre
       \<and> (\<forall>p\<in>set outs. is_file w2 (resolve w p))
       \<and> (\<exists>new. log w2 = log w @ new
             \<and> set (engine_sources new) \<subseteq> resolve w ` set (pre @ [f]))"
proof -
  let ?loop = "convert_each pypandoc (resolve w folder) output_dir reference_doc"
  have step: "?loop w1 outs (f # post) = (Inl e, w2)"
    using dest fail by simp
  have run: "run_folder pypandoc w folder output_dir recursive reference_doc = (Inl e, w2)"
    using collect pre_ok step by (simp add: run_folder_def convert_each_append)
  have one: "?loop w1 outs [f] = (Inl e, w2)"
    using dest fail by simp
  have whole: "?loop w [] (pre @ [f]) = (Inl e, w2)"
    using pre_ok one by (simp add: convert_each_append)
  note pre_eff = convert_each_effect[OF pre_ok contract]
  note all_eff = convert_each_effect[OF whole contract]
  from pre_eff have len: "length outs = length pre" by auto
  from pre_eff have on1: "\<forall>p\<in>set outs. is_file w1 (resolve w p)" by auto
  have keep: "\<forall>p. is_file w1 p \<longrightarrow> is_file w2 p"
    using convert_keeps_files[OF fail contract] by blast
  from on1 keep have on2: "\<forall>p\<in>set outs. is_file w2 (resolve w p)" by blast
  from all_eff have lg: "\<exists>new. log w2 = log w @ new
             \<and> set (engine_sources new) \<subseteq> resolve w ` set (pre @ [f])" by blast
  from run len on2 lg show ?thesis by blast
qed

theorem batch_stops_witness:
  "collect_md_files five_world (Path True [''in'']) False =
     Inr ([Path True [''in'', ''1.md''], Path True [''in'', ''2.md'']]
          @ Path True [''in'', ''3.md'']
          # [Path True [''in'', ''4.md''], Path True [''in'', ''5.md'']])
   \<and> fst (run_folder (Some (pandoc_stub [Path True [''in'', ''3.md'']])) five_world
             (Path True [''in'']) None False None)
       = Inl (Exn RuntimeError ''Pandoc died with exitcode 1 during conversion'' None)
   \<and> is_file (snd (run_folder (Some (pandoc_stub [Path True [''in'', ''3.md'']])) five_world
             (Path True [''in'']) None False None)) (Path True [''in'', ''1.docx''])
   \<and> is_file (snd (run_folder (Some (pandoc_stub [Path True [''in'', ''3.md'']])) five_world
             (Path True [''in'']) None False None)) (Path True [''in'', ''2.docx''])
   \<and> \<not> path_exists (snd (run_folder (Some (pandoc_stub [Path True [''in'', ''3.md'']])) five_world
             (Path True [''in'']) None False None)) (Path True [''in'', ''4.docx''])
   \<and> \<not> path_exists (snd (run_folder (Some (pandoc_stub [Path True [''in'', ''3.md'']])) five_world
             (Path True [''in'']) None False None)) (Path True [''in'', ''5.docx''])
   \<and> engine_sources (log (snd (run_folder (Some (pandoc_stub [Path True [''in'', ''3.md'']]))
             five_world (Path True [''in'']) None False None)))
       = [Path True [''in'', ''1.md''], Path True [''in'', ''2.md''], Path True [''in'', ''3.md'']]"
proof -
  let ?P = "Some (pandoc_stub [Path True [''in'', ''3.md'']])"
  let ?folder = "Path True [''in'']"
  let ?pre = "[Path True [''in'', ''1.md''], Path True [''in'', ''2.md'']]"
  let ?f = "Path True [''in'', ''3.md'']"
  let ?post = "[Path True [''in'', ''4.md''], Path True [''in'', ''5.md'']]"
  let ?outs = "[Path True [''in'', ''1.docx''], Path True [''in'', ''2.docx'']]"
  let ?d = "Path True [''in'', ''3.docx'']"
  let ?e = "Exn RuntimeError ''Pandoc died with exitcode 1 during conversion'' None"
  let ?loop = "convert_each ?P (resolve five_world ?folder) None None five_world [] ?pre"
  let ?step = "convert_md_to_docx ?P (snd ?loop) ?f ?d None"
  let ?run = "run_folder ?P five_world ?folder None False None"
  have collect: "collect_md_files five_world ?folder False = Inr (?pre @ ?f # ?post)"
    by code_simp
  have contract: "\<forall>convert_file. ?P = Some convert_file \<longrightarrow> engine_keeps_files convert_file"
    using pandoc_stub_keeps_files by simp
  have "fst ?loop = Inr ?outs" by code_simp
  then have pre_ok: "?loop = (Inr ?outs, snd ?loop)" by (metis prod.collapse)
  have dest: "batch_docx_path (snd ?loop) (resolve five_world ?folder) None ?f = Inr ?d"
    by code_simp
  have "fst ?step = Inl ?e" by code_simp
  then have fail: "?step = (Inl ?e, snd ?step)" by (metis prod.collapse)
  from batch_stops_at_first_failure[OF collect contract pre_ok dest fail]
  have run: "?run = (Inl ?e, snd ?step)" by blast
  then have r: "fst ?run = Inl ?e" by simp
  have f1: "is_file (snd ?run) (Path True [''in'', ''1.docx''])" by code_simp
  have f2: "is_file (snd ?run) (Path True [''in'', ''2.docx''])" by code_simp
  have f4: "\<not> path_exists (snd ?run) (Path True [''in'', ''4.docx''])" by code_simp
  have f5: "\<not> path_exists (snd ?run) (Path True [''in'', ''5.docx''])" by code_simp
  have l: "engine_sources (log (snd ?run))
       = [Path True [''in'', ''1.md''], Path True [''in'', ''2.md''], Path True [''in'', ''3.md'']]"
    by code_simp
  from collect r f1 f2 f4 f5 l show ?thesis by blast
qed

subsection \<open>Discovery\<close>

lemma nonrecursive_discovery_meets_spec:
  "collect_md_files w folder False = spec_discover w folder False"
  by (simp add: collect_md_files_def spec_discover_def candidate_paths_def Let_def)

text \<open>
  Claim C3 is right and the recursive branch of \<^verbatim>\<open>collect_md_files\<close> misses it. Under
  \<^verbatim>\<open>/docs\<close> there are the regular file \<^verbatim>\<open>README.MD\<close> and the directory \<^verbatim>\<open>x.md\<close>.
  Recursive discovery returns the directory and not the file, where the specification's
  discovery returns the file alone; the non-recursive branch, which tests
  \<^verbatim>\<open>is_file\<close> and lowers the suffix, returns the file.
\<close>

theorem recursive_discovery_diverges:
  "is_file docs_world (Path True [''docs'', ''README.MD''])
   \<and> is_dir docs_world (Path True [''docs'', ''x.md''])
   \<and> collect_md_files docs_world (Path True [''docs'']) True
       = Inr [Path True [''docs'', ''x.md'']]
   \<and> spec_discover docs_world (Path True [''docs'']) True
       = Inr [Path True [''docs'', ''README.MD'']]
   \<and> collect_md_files docs_world (Path True [''docs'']) False
       = Inr [Path True [''docs'', ''README.MD'']]"
  by code_simp

lemma sort_key_mset_unique:
  assumes "mset xs = mset ys" and "inj_on f (set xs)"
  shows "sort_key f xs = sort_key f ys"
proof -
  have s: "set ys = set xs" using assms(1) by (metis mset_eq_setD)
  have "mset (map f (sort_key f ys)) = mset (map f (sort_key f xs))"
    using assms(1) by (metis mset_map mset_sort)
  moreover have "sorted (map f (sort_key f ys))" by simp
  ultimately have "sort (map f (sort_key f xs)) = map f (sort_key f ys)"
    by (rule properties_for_sort)
  moreover have "sort (map f (sort_key f xs)) = map f (sort_key f xs)"
    by (simp add: sorted_sort_id)
  ultimately have eq: "map f (sort_key f xs) = map f (sort_key f ys)" by simp
  have "inj_on f (set (sort_key f xs) \<union> set (sort_key f ys))"
    using assms(2) s by simp
  from inj_on_map_eq_map[OF this] eq show ?thesis by blast
qed

lemma cparts_inj_absolute: "inj_on cparts {p. is_absolute p}"
proof (rule inj_onI)
  fix p q assume "p \<in> {p. is_absolute p}" "q \<in> {p. is_absolute p}" "cparts p = cparts q"
  then show "p = q" by (cases p; cases q) (simp add: cparts_def)
qed

lemma candidate_paths_absolute:
  "q \<in> set (candidate_paths w folder recursive) \<Longrightarrow> is_absolute q"
  using candidate_paths_under by fastforce

lemma sorted_map_Cons:
  "sorted (map (\<lambda>p. c # g p) xs) \<Longrightarrow> sorted (map g xs)"
  by (induction xs) auto

lemma cparts_absolute: "is_absolute p \<Longrightarrow> cparts p = [sep] # parts p"
  by (simp add: cparts_def)

lemma sorted_parts_of_cparts:
  assumes "sorted (map cparts ps)" and "\<forall>p\<in>set ps. is_absolute p"
  shows "sorted (map parts ps)"
proof -
  have "map cparts ps = map (\<lambda>p. [sep] # parts p) ps"
    using assms(2) by (simp add: cparts_absolute)
  with assms(1) have "sorted (map (\<lambda>p. [sep] # parts p) ps)" by simp
  then show ?thesis by (rule sorted_map_Cons)
qed

text \<open>
  Claim C7, as stated, fails. Under \<^verbatim>\<open>/s\<close> with \<^verbatim>\<open>a/b.md\<close> and \<^verbatim>\<open>a-b/c.md\<close>,
  discovery returns \<^verbatim>\<open>/s/a/b.md\<close> before \<^verbatim>\<open>/s/a-b/c.md\<close>, while as text
  \<^verbatim>\<open>/s/a-b/c.md\<close> comes first: the list is not in lexicographic order of the path
  strings.
\<close>

theorem text_order_counterexample:
  "collect_md_files dash_world (Path True [''s'']) True
     = Inr [Path True [''s'', ''a'', ''b.md''], Path True [''s'', ''a-b'', ''c.md'']]
   \<and> str_path (Path True [''s'', ''a'', ''b.md'']) = ''/s/a/b.md''
   \<and> str_path (Path True [''s'', ''a-b'', ''c.md'']) = ''/s/a-b/c.md''
   \<and> ''/s/a-b/c.md'' < ''/s/a/b.md''
   \<and> \<not> sorted (map str_path [Path True [''s'', ''a'', ''b.md''], Path True [''s'', ''a-b'', ''c.md'']])"
  by code_simp

text \<open>
  Claim C7, amended. The list returned by discovery is in the order in which paths
  compare: lexicographic on the list of components (the root, then each name), each
  name compared character by character. Every path in it is absolute and is the
  resolved root followed by the names that lead to the entry. The list depends only on
  which candidates the file system yields, not on the order in which it lists them: two
  worlds whose candidates agree as multisets return the same list.
\<close>

theorem discovery_sorted_and_order_independent:
  assumes "collect_md_files w folder recursive = Inr ps"
  shows "sorted (map cparts ps)
       \<and> sorted (map parts ps)
       \<and> (\<forall>p\<in>set ps. is_absolute p
            \<and> (\<exists>rel. rel \<noteq> [] \<and> parts p = parts (resolve w folder) @ rel))
       \<and> (\<forall>w' ps'. collect_md_files w' folder recursive = Inr ps'
              \<and> mset (candidate_paths w' (resolve w' folder) recursive)
                  = mset (candidate_paths w (resolve w folder) recursive)
            \<longrightarrow> ps' = ps)"
proof -
  let ?c = "candidate_paths w (resolve w folder) recursive"
  from assms have ps: "ps = sort_key cparts ?c"
    by (auto simp: collect_md_files_def Let_def split: if_splits)
  have a: "sorted (map cparts ps)" by (simp add: ps)
  have abs: "\<forall>p\<in>set ps. is_absolute p"
    using candidate_paths_absolute by (auto simp: ps)
  have a': "sorted (map parts ps)"
    using a abs by (rule sorted_parts_of_cparts)
  have b: "\<forall>p\<in>set ps. is_absolute p
            \<and> (\<exists>rel. rel \<noteq> [] \<and> parts p = parts (resolve w folder) @ rel)"
  proof
    fix p assume p: "p \<in> set ps"
    from collected_under_folder[OF assms p] obtain rel where
      "rel \<noteq> []" "p = Path True (parts (resolve w folder) @ rel)" by blast
    then have "\<exists>rel. rel \<noteq> [] \<and> parts p = parts (resolve w folder) @ rel" by auto
    with abs p show "is_absolute p
            \<and> (\<exists>rel. rel \<noteq> [] \<and> parts p = parts (resolve w folder) @ rel)" by blast
  qed
  have c: "ps' = ps"
    if c': "collect_md_files w' folder recursive = Inr ps'"
      and m: "mset (candidate_paths w' (resolve w' folder) recursive) = mset ?c" for w' ps'
  proof -
    from c' have ps': "ps' = sort_key cparts (candidate_paths w' (resolve w' folder) recursive)"
      by (auto simp: collect_md_files_def Let_def split: if_splits)
    have "set (candidate_paths w' (resolve w' folder) recursive) \<subseteq> {p. is_absolute p}"
      using candidate_paths_absolute by blast
    then have "inj_on cparts (set (candidate_paths w' (resolve w' folder) recursive))"
      using cparts_inj_absolute by (rule inj_on_subset[rotated])
    from sort_key_mset_unique[OF m this] show ?thesis by (simp add: ps ps')
  qed
  from a a' b c show ?thesis by blast
qed

theorem discovery_order_witness:
  "collect_md_files notes_world (Path False []) True =
     Inr [Path True [''notes'', ''sub1'', ''note.md''],
          Path True [''notes'', ''sub2'', ''note.md''],
          Path True [''notes'', ''top.md'']]
   \<and> candidate_paths notes_world (resolve notes_world (Path False [])) True
       \<noteq> candidate_paths notes_world_relisted (resolve notes_world_relisted (Path False [])) True
   \<and> sorted (map cparts [Path True [''notes'', ''sub1'', ''note.md''],
          Path True [''notes'', ''sub2'', ''note.md''],
          Path True [''notes'', ''top.md'']])
   \<and> collect_md_files notes_world_relisted (Path False []) True =
     Inr [Path True [''notes'', ''sub1'', ''note.md''],
          Path True [''notes'', ''sub2'', ''note.md''],
          Path True [''notes'', ''top.md'']]"
proof -
  let ?ps = "[Path True [''notes'', ''sub1'', ''note.md''],
          Path True [''notes'', ''sub2'', ''note.md''],
          Path True [''notes'', ''top.md'']]"
  have c: "collect_md_files notes_world (Path False []) True = Inr ?ps" by code_simp
  have c1: "candidate_paths notes_world (resolve notes_world (Path False [])) True =
     [Path True [''notes'', ''top.md''], Path True [''notes'', ''sub2'', ''note.md''],
      Path True [''notes'', ''sub1'', ''note.md'']]" by code_simp
  have c2: "candidate_paths notes_world_relisted (resolve notes_world_relisted (Path False [])) True =
     [Path True [''notes'', ''top.md''], Path True [''notes'', ''sub1'', ''note.md''],
      Path True [''notes'', ''sub2'', ''note.md'']]" by code_simp
  have d: "candidate_paths notes_world (resolve notes_world (Path False [])) True
       \<noteq> candidate_paths notes_world_relisted (resolve notes_world_relisted (Path False [])) True"
    unfolding c1 c2 by simp
  have m: "mset (candidate_paths notes_world_relisted (resolve notes_world_relisted (Path False [])) True)
       = mset (candidate_paths notes_world (resolve notes_world (Path False [])) True)"
    unfolding c1 c2 by simp
  have dr: "is_dir notes_world_relisted (resolve notes_world_relisted (Path False []))"
    by code_simp
  define ps' where "ps' = sort_key cparts
       (candidate_paths notes_world_relisted (resolve notes_world_relisted (Path False [])) True)"
  have c': "collect_md_files notes_world_relisted (Path False []) True = Inr ps'"
    using dr by (simp add: collect_md_files_def Let_def ps'_def)
  from discovery_sorted_and_order_independent[OF c] c' m
  have s: "sorted (map cparts ?ps)" and e: "ps' = ?ps" by blast+
  from c d s c'[unfolded e] show ?thesis by blast
qed

subsection \<open>Nothing discovered\<close>

text \<open>
  Claim C8. When the root is a directory and discovery finds no candidate,
  \<^verbatim>\<open>collect_md_files\<close> and \<^verbatim>\<open>run_folder\<close> return the empty list without raising and
  without touching the world, and \<^verbatim>\<open>main\<close> in folder mode writes the line
  \<^verbatim>\<open>No .md files found.\<close> to the error stream and returns 1. When \<^verbatim>\<open>run_folder\<close> returns
  a non-empty list, \<^verbatim>\<open>main\<close> prints one line for each produced file and returns 0.
\<close>

theorem empty_discovery_exit_status:
  "(is_dir w (resolve w folder) \<and> candidate_paths w (resolve w folder) recursive = [] \<longrightarrow>
       collect_md_files w folder recursive = Inr []
     \<and> run_folder pypandoc w folder output_dir recursive reference_doc = (Inr [], w)
     \<and> main pypandoc w
          \<lparr>arg_file = None, arg_folder = Some folder, arg_output = output,
           arg_output_dir = output_dir, arg_recursive = recursive,
           arg_reference_doc = reference_doc\<rparr>
        = (Inr 1, w\<lparr>stderr := stderr w @ [''No .md files found.'']\<rparr>))
 \<and> (\<forall>p ps w'. run_folder pypandoc w folder output_dir recursive reference_doc
                   = (Inr (p # ps), w') \<longrightarrow>
       main pypandoc w
          \<lparr>arg_file = None, arg_folder = Some folder, arg_output = output,
           arg_output_dir = output_dir, arg_recursive = recursive,
           arg_reference_doc = reference_doc\<rparr>
        = (Inr 0, w'\<lparr>stdout := stdout w'
                       @ map (\<lambda>q. ''Created: '' @ str_path q) (p # ps)\<rparr>))"
proof -
  let ?a = "\<lparr>arg_file = None, arg_folder = Some folder, arg_output = output,
           arg_output_dir = output_dir, arg_recursive = recursive,
           arg_reference_doc = reference_doc\<rparr>"
  have empty: "collect_md_files w folder recursive = Inr []
     \<and> run_folder pypandoc w folder output_dir recursive reference_doc = (Inr [], w)
     \<and> main pypandoc w ?a = (Inr 1, w\<lparr>stderr := stderr w @ [''No .md files found.'']\<rparr>)"
    if d: "is_dir w (resolve w folder)"
      and c: "candidate_paths w (resolve w folder) recursive = []"
  proof -
    have col: "collect_md_files w folder recursive = Inr []"
      using d c by (simp add: collect_md_files_def Let_def)
    then have run: "run_folder pypandoc w folder output_dir recursive reference_doc = (Inr [], w)"
      by (simp add: run_folder_def)
    then have "main pypandoc w ?a = (Inr 1, w\<lparr>stderr := stderr w @ [''No .md files found.'']\<rparr>)"
      by (simp add: main_def main_body_def)
    with col run show ?thesis by blast
  qed
  have full: "main pypandoc w ?a
        = (Inr 0, w'\<lparr>stdout := stdout w' @ map (\<lambda>q. ''Created: '' @ str_path q) (p # ps)\<rparr>)"
    if "run_folder pypandoc w folder output_dir recursive reference_doc = (Inr (p # ps), w')"
    for p ps w'
    using that by (simp add: main_def main_body_def)
  from empty full show ?thesis by blast
qed

theorem empty_discovery_witness:
  "is_dir notes_world (resolve notes_world (Path True [''empty'']))
   \<and> candidate_paths notes_world (resolve notes_world (Path True [''empty''])) True = []
   \<and> run_folder (Some (pandoc_stub [])) notes_world (Path True [''empty'']) None True None
       = (Inr [], notes_world)
   \<and> main (Some (pandoc_stub [])) notes_world
          \<lparr>arg_file = None, arg_folder = Some (Path True [''empty'']), arg_output = None,
           arg_output_dir = None, arg_recursive = True, arg_reference_doc = None\<rparr>
       = (Inr 1, notes_world\<lparr>stderr := stderr notes_world @ [''No .md files found.'']\<rparr>)
   \<and> fst (run_folder (Some (pandoc_stub [])) notes_world (Path False []) None False None)
       = Inr (Path True [''notes'', ''top.docx''] # [])
   \<and> fst (main (Some (pandoc_stub [])) notes_world
          \<lparr>arg_file = None, arg_folder = Some (Path False []), arg_output = None,
           arg_output_dir = None, arg_recursive = False, arg_reference_doc = None\<rparr>)
       = Inr 0"
proof -
  let ?P = "Some (pandoc_stub [])"
  let ?run = "run_folder ?P notes_world (Path False []) None False None"
  have d: "is_dir notes_world (resolve notes_world (Path True [''empty'']))" by code_simp
  have c: "candidate_paths notes_world (resolve notes_world (Path True [''empty''])) True = []"
    by code_simp
  from empty_discovery_exit_status[of notes_world "Path True [''empty'']" True ?P None None None] d c
  have e1: "run_folder ?P notes_world (Path True [''empty'']) None True None = (Inr [], notes_world)"
    and e2: "main ?P notes_world
          \<lparr>arg_file = None, arg_folder = Some (Path True [''empty'']), arg_output = None,
           arg_output_dir = None, arg_recursive = True, arg_reference_doc = None\<rparr>
       = (Inr 1, notes_world\<lparr>stderr := stderr notes_world @ [''No .md files found.'']\<rparr>)"
    by blast+
  have r: "fst ?run = Inr (Path True [''notes'', ''top.docx''] # [])" by code_simp
  then have r': "?run = (Inr (Path True [''notes'', ''top.docx''] # []), snd ?run)"
    by (metis prod.collapse)
  from empty_discovery_exit_status[of notes_world "Path False []" False ?P None None None] r'
  have "main ?P notes_world
          \<lparr>arg_file = None, arg_folder = Some (Path False []), arg_output = None,
           arg_output_dir = None, arg_recursive = False, arg_reference_doc = None\<rparr>
        = (Inr 0, (snd ?run)\<lparr>stdout := stdout (snd ?run)
             @ map (\<lambda>q. ''Created: '' @ str_path q) (Path True [''notes'', ''top.docx''] # [])\<rparr>)"
    by blast
  then have m: "fst (main ?P notes_world
          \<lparr>arg_file = None, arg_folder = Some (Path False []), arg_output = None,
           arg_output_dir = None, arg_recursive = False, arg_reference_doc = None\<rparr>) = Inr 0"
    by simp
  from d c e1 e2 r m show ?thesis by blast
qed

end
